theory Spec2Isabelle
  imports Main "HOL-Library.Word"
begin

section \<open>Data of include/wx/process.h\<close>

text \<open>
  The C++ scalar types of the header. The claims below never depend on the width of
  \<open>long\<close>, which differs between platforms; 64 bits are taken here.
\<close>

type_synonym c_int = "32 word"
type_synonym c_unsigned = "32 word"
type_synonym c_long = "64 word"

text \<open>
  A pointer is \<open>None\<close> (\<open>nullptr\<close>) or the address of an object. A store maps the
  addresses of the objects that are alive to their contents; an address outside its
  domain is dangling.
\<close>

type_synonym addr = nat
type_synonym ptr = "addr option"
type_synonym 'x store = "addr \<rightharpoonup> 'x"

text \<open>The wxProcess creation flags (lines 23-30).\<close>

definition wxPROCESS_DEFAULT :: c_int where
  "wxPROCESS_DEFAULT = 0"

definition wxPROCESS_REDIRECT :: c_int where
  "wxPROCESS_REDIRECT = 1"

text \<open>
  Event types. \<open>wxEVT_END_PROCESS\<close> is declared at line 156; its numeric value is
  assigned elsewhere, so event types are kept symbolic: the declared tag, the null tag
  \<open>wxEVT_NULL\<close> that the base class \<open>wxEvent\<close> starts with, and any other tag.
\<close>

datatype wxEventType = wxEVT_NULL | wxEVT_END_PROCESS | wxEVT_other nat

text \<open>
  \<open>wxEvent\<close> is the base class of \<open>wxProcessEvent\<close> (wx/event.h, not part of this
  header). Of its members only the identifier, which the constructor receives, and the
  event type, which the derived constructor assigns, are kept.
\<close>

record wxEvent =
  m_id :: c_int
  m_eventType :: wxEventType

text \<open>class wxProcessEvent : public wxEvent (lines 158-183), with its two public fields.\<close>

record wxProcessEvent = wxEvent +
  m_pid :: c_int
  m_exitcode :: c_int

text \<open>
  The data members of class wxProcess (lines 130-144). The three stream members are
  pointers: \<open>m_inputStream\<close> and \<open>m_errorStream\<close> point to \<open>wxInputStream\<close> objects
  connected to the child's stdout and stderr, \<open>m_outputStream\<close> to a \<open>wxOutputStream\<close>
  object connected to the child's stdin (comment at lines 136-138).
\<close>

record wxProcess =
  m_id :: c_int
  m_pid :: c_long
  m_priority :: c_unsigned
  m_inputStream :: ptr
  m_errorStream :: ptr
  m_outputStream :: ptr
  m_redirect :: bool

text \<open>
  The state a member function of wxProcess works on: the object itself (\<open>this\<close>) and the
  stream objects its pointers may refer to. The stream classes are declared in
  wx/stream.h; their contents are the type parameters \<open>'i\<close> (input streams) and \<open>'o\<close>
  (output streams).
\<close>

record ('i, 'o) world =
  this :: wxProcess
  istreams :: "'i store"
  ostreams :: "'o store"

section \<open>Member functions of wxProcess defined in the header\<close>

text \<open>long GetPid() const { return m_pid; }\<close>

definition GetPid :: "wxProcess \<Rightarrow> c_long" where
  "GetPid p = wxProcess.m_pid p"

text \<open>void Redirect() { m_redirect = true; }\<close>

definition Redirect :: "wxProcess \<Rightarrow> wxProcess" where
  "Redirect p = p\<lparr>m_redirect := True\<rparr>"

text \<open>bool IsRedirected() const { return m_redirect; }\<close>

definition IsRedirected :: "wxProcess \<Rightarrow> bool" where
  "IsRedirected p = m_redirect p"

text \<open>The three stream getters (lines 88-90).\<close>

definition GetInputStream :: "wxProcess \<Rightarrow> ptr" where
  "GetInputStream p = m_inputStream p"

definition GetErrorStream :: "wxProcess \<Rightarrow> ptr" where
  "GetErrorStream p = m_errorStream p"

definition GetOutputStream :: "wxProcess \<Rightarrow> ptr" where
  "GetOutputStream p = m_outputStream p"

text \<open>unsigned GetPriority() const { return m_priority; }\<close>

definition GetPriority :: "wxProcess \<Rightarrow> c_unsigned" where
  "GetPriority p = m_priority p"

text \<open>void SetPid(long pid) { m_pid = pid; }\<close>

definition SetPid :: "c_long \<Rightarrow> wxProcess \<Rightarrow> wxProcess" where
  "SetPid pid p = p\<lparr>wxProcess.m_pid := pid\<rparr>"

text \<open>
  The C++ \<open>delete\<close> expression on a pointer into a store. Deleting \<open>nullptr\<close> does
  nothing. Deleting the address of a live object destroys the object. Deleting a
  dangling address (a second delete of the same object) is undefined behaviour in C++;
  the model reports it as \<open>None\<close>.
\<close>

definition delete_obj :: "ptr \<Rightarrow> 'x store \<Rightarrow> 'x store option" where
  "delete_obj p h =
     (case p of
        None \<Rightarrow> Some h
      | Some a \<Rightarrow> (case h a of None \<Rightarrow> None | Some _ \<Rightarrow> Some (h(a := None))))"

text \<open>void CloseOutput() { delete m_outputStream; m_outputStream = nullptr; }\<close>

definition CloseOutput :: "('i, 'o, 'z) world_scheme \<Rightarrow> ('i, 'o, 'z) world_scheme option" where
  "CloseOutput w =
     (case delete_obj (m_outputStream (this w)) (ostreams w) of
        None \<Rightarrow> None
      | Some h \<Rightarrow> Some (w\<lparr>ostreams := h, this := (this w)\<lparr>m_outputStream := None\<rparr>\<rparr>))"

text \<open>
  The output pointer of the object is usable: it is null or points to a live output
  stream. This is the state in which \<open>CloseOutput\<close> may be called.
\<close>

definition output_valid :: "('i, 'o, 'z) world_scheme \<Rightarrow> bool" where
  "output_valid w =
     (case m_outputStream (this w) of None \<Rightarrow> True | Some a \<Rightarrow> ostreams w a \<noteq> None)"

text \<open>
  A call of one of the public member functions whose body the header gives. The
  \<open>const\<close> ones return a value and leave the object as it is.
\<close>

datatype call =
    Call_GetPid
  | Call_Redirect
  | Call_IsRedirected
  | Call_GetInputStream
  | Call_GetErrorStream
  | Call_GetOutputStream
  | Call_CloseOutput
  | Call_GetPriority
  | Call_SetPid c_long

fun invoke :: "call \<Rightarrow> ('i, 'o) world \<Rightarrow> ('i, 'o) world option" where
  "invoke Call_Redirect w = Some (w\<lparr>this := Redirect (this w)\<rparr>)"
| "invoke Call_CloseOutput w = CloseOutput w"
| "invoke (Call_SetPid pid) w = Some (w\<lparr>this := SetPid pid (this w)\<rparr>)"
| "invoke Call_GetPid w = Some w"
| "invoke Call_IsRedirected w = Some w"
| "invoke Call_GetInputStream w = Some w"
| "invoke Call_GetErrorStream w = Some w"
| "invoke Call_GetOutputStream w = Some w"
| "invoke Call_GetPriority w = Some w"

text \<open>A sequence of calls on the same object, in order; it stops where a call is undefined.\<close>

fun invoke_all :: "call list \<Rightarrow> ('i, 'o) world \<Rightarrow> ('i, 'o) world option" where
  "invoke_all [] w = Some w"
| "invoke_all (c # cs) w = (case invoke c w of None \<Rightarrow> None | Some w' \<Rightarrow> invoke_all cs w')"

section \<open>class wxProcessEvent\<close>

text \<open>
  The base class constructor \<open>wxEvent(int winid = 0, wxEventType commandType = wxEVT_NULL)\<close>,
  called as \<open>wxEvent(nId)\<close> by the initialiser list at line 161.
\<close>

definition wxEvent_ctor :: "c_int \<Rightarrow> wxEvent" where
  "wxEvent_ctor winid = \<lparr>wxEvent.m_id = winid, m_eventType = wxEVT_NULL\<rparr>"

text \<open>
  wxProcessEvent(int nId = 0, int pid = 0, int exitcode = 0) : wxEvent(nId)
  { m_eventType = wxEVT_END_PROCESS; m_pid = pid; m_exitcode = exitcode; }
\<close>

definition wxProcessEvent_ctor :: "c_int \<Rightarrow> c_int \<Rightarrow> c_int \<Rightarrow> wxProcessEvent" where
  "wxProcessEvent_ctor nId pid exitcode =
     (let base = wxEvent_ctor nId;
          base = base\<lparr>m_eventType := wxEVT_END_PROCESS\<rparr>
      in \<lparr>wxEvent.m_id = wxEvent.m_id base, m_eventType = m_eventType base,
          wxProcessEvent.m_pid = pid, m_exitcode = exitcode\<rparr>)"

text \<open>int GetPid() const { return m_pid; }\<close>

definition wxProcessEvent_GetPid :: "wxProcessEvent \<Rightarrow> c_int" where
  "wxProcessEvent_GetPid e = wxProcessEvent.m_pid e"

text \<open>int GetExitCode() const { return m_exitcode; }\<close>

definition wxProcessEvent_GetExitCode :: "wxProcessEvent \<Rightarrow> c_int" where
  "wxProcessEvent_GetExitCode e = m_exitcode e"

text \<open>
  The copy constructor \<open>wxProcessEvent(const wxProcessEvent&)\<close> is the implicit one
  (line 182 declares the class with a default copy): it copies member by member.
\<close>

definition wxProcessEvent_copy :: "wxProcessEvent \<Rightarrow> wxProcessEvent" where
  "wxProcessEvent_copy e =
     \<lparr>wxEvent.m_id = wxEvent.m_id e, m_eventType = m_eventType e,
      wxProcessEvent.m_pid = wxProcessEvent.m_pid e, m_exitcode = m_exitcode e\<rparr>"

text \<open>
  Event objects live in a heap of their own: the list of the objects allocated so far,
  an object's address being its index. \<open>new\<close> appends the object and returns the
  address it got, which no earlier object has.
\<close>

type_synonym event_heap = "wxProcessEvent list"

definition new_event :: "wxProcessEvent \<Rightarrow> event_heap \<Rightarrow> addr \<times> event_heap" where
  "new_event e h = (length h, h @ [e])"

text \<open>
  wxEvent *Clone() const override { return new wxProcessEvent(*this); }
  called on the object at address \<open>a\<close>; \<open>None\<close> when there is no object there.
\<close>

definition wxProcessEvent_Clone :: "event_heap \<Rightarrow> addr \<Rightarrow> (addr \<times> event_heap) option" where
  "wxProcessEvent_Clone h a =
     (if a < length h then Some (new_event (wxProcessEvent_copy (h ! a)) h) else None)"

text \<open>
  The data members are declared in a public section and are not const:
  \<open>public: int m_pid, m_exitcode;\<close> (lines 178-180), and a handler receives the event
  by non-const reference (line 185). Code outside the class can therefore assign them,
  as in \<open>e.m_pid = v\<close>.
\<close>

definition assign_m_pid :: "c_int \<Rightarrow> wxProcessEvent \<Rightarrow> wxProcessEvent" where
  "assign_m_pid v e = e\<lparr>wxProcessEvent.m_pid := v\<rparr>"

definition assign_m_exitcode :: "c_int \<Rightarrow> wxProcessEvent \<Rightarrow> wxProcessEvent" where
  "assign_m_exitcode v e = e\<lparr>m_exitcode := v\<rparr>"

text \<open>
  What the class lets its users do with the object at an address: call one of its three
  member functions, or assign one of its two public data members.
\<close>

datatype event_call =
    Ev_GetPid
  | Ev_GetExitCode
  | Ev_Clone
  | Ev_assign_m_pid c_int
  | Ev_assign_m_exitcode c_int

fun is_member_function :: "event_call \<Rightarrow> bool" where
  "is_member_function Ev_GetPid = True"
| "is_member_function Ev_GetExitCode = True"
| "is_member_function Ev_Clone = True"
| "is_member_function (Ev_assign_m_pid v) = False"
| "is_member_function (Ev_assign_m_exitcode v) = False"

fun event_invoke :: "event_call \<times> addr \<Rightarrow> event_heap \<Rightarrow> event_heap option" where
  "event_invoke (Ev_GetPid, a) h = (if a < length h then Some h else None)"
| "event_invoke (Ev_GetExitCode, a) h = (if a < length h then Some h else None)"
| "event_invoke (Ev_Clone, a) h = map_option snd (wxProcessEvent_Clone h a)"
| "event_invoke (Ev_assign_m_pid v, a) h =
     (if a < length h then Some (h[a := assign_m_pid v (h ! a)]) else None)"
| "event_invoke (Ev_assign_m_exitcode v, a) h =
     (if a < length h then Some (h[a := assign_m_exitcode v (h ! a)]) else None)"

fun event_invoke_all :: "(event_call \<times> addr) list \<Rightarrow> event_heap \<Rightarrow> event_heap option" where
  "event_invoke_all [] h = Some h"
| "event_invoke_all (c # cs) h =
     (case event_invoke c h of None \<Rightarrow> None | Some h' \<Rightarrow> event_invoke_all cs h')"

section \<open>The lifecycle operations, from the specification\<close>

text \<open>
  \<open>Detach\<close>, \<open>SetPriority\<close>, \<open>Kill\<close> and \<open>Exists\<close> are declared in the header
  and defined in the implementation file, which is not among the sources; the launcher
  \<open>wxExecute\<close> and the child reaper are not either. The definitions of this section
  follow the specification's words for them.
\<close>

text \<open>
  Modelled from the spec: the \<open>state\<close> of a ProcessHandle (section 3), absent from the
  header: "{Created, Running, Terminated} - terminal state is Terminated".
\<close>

datatype lifecycle = Created | Running | Terminated

text \<open>Modelled from the spec: the error taxonomy of section 7, absent from the header.\<close>

datatype error =
    AlreadyBoundError
  | InvalidStateError
  | NotRedirectedError
  | NoSuchProcessError
  | AccessDeniedError
  | OperationNotSupportedError
  | DoubleTerminationError

text \<open>
  Modelled from the spec: what section 3 adds to the members of the header, for one
  handle: its \<open>detached\<close> flag and \<open>state\<close>, the ProcessRegistry (the process ids
  currently registered) and the ExitSignals the NotificationDispatcher has received, in
  order of delivery. An ExitSignal is the header's \<open>wxProcessEvent\<close>.
\<close>

record ('i, 'o) system = "('i, 'o) world" +
  detached :: bool
  state :: lifecycle
  registry :: "c_long set"
  dispatched :: "wxProcessEvent list"

text \<open>
  Modelled from the spec: BindLaunchResult (section 4.1), the launcher's part, absent from
  the sources. "Fails with AlreadyBoundError if called twice or if processId is
  absent/invalid. Registers the handle in ProcessRegistry keyed by processId. Transitions
  state Created -> Running." An absent or invalid process id is \<open>None\<close>. The process id
  is stored with the header's \<open>SetPid\<close>; the stream endpoints are bound by SetPipes
  (section 4.2), a separate call.
\<close>

definition BindLaunchResult :: "c_long option \<Rightarrow> ('i, 'o) system \<Rightarrow> error + ('i, 'o) system" where
  "BindLaunchResult processId s =
     (if state s \<noteq> Created then Inl AlreadyBoundError
      else case processId of
        None \<Rightarrow> Inl AlreadyBoundError
      | Some pid \<Rightarrow>
          Inr (s\<lparr>this := SetPid pid (this s),
                 registry := insert pid (registry s),
                 state := Running\<rparr>))"

text \<open>
  Modelled from the spec: SetPriority (section 4.1), whose body is absent from the header:
  "fails with InvalidStateError if state is not Created"; otherwise the value is stored in
  the member \<open>m_priority\<close> that the header's \<open>GetPriority\<close> reads.
\<close>

definition SetPriority :: "c_unsigned \<Rightarrow> ('i, 'o) system \<Rightarrow> error + ('i, 'o) system" where
  "SetPriority v s =
     (if state s \<noteq> Created then Inl InvalidStateError
      else Inr (s\<lparr>this := (this s)\<lparr>m_priority := v\<rparr>\<rparr>))"

text \<open>
  Modelled from the spec: Detach (section 4.1), whose body is absent from the header:
  "sets detached = true idempotently. If state is already Terminated, has no further
  effect".
\<close>

definition Detach :: "('i, 'o) system \<Rightarrow> ('i, 'o) system" where
  "Detach s = s\<lparr>detached := True\<rparr>"

text \<open>
  Modelled from the spec: releasing a stream endpoint at termination (section 4.1,
  "always release the StreamBundle's read-side resources"): the object, if any, leaves
  the store.
\<close>

definition release :: "ptr \<Rightarrow> 'x store \<Rightarrow> 'x store" where
  "release p h = (case p of None \<Rightarrow> h | Some a \<Rightarrow> h(a := None))"

text \<open>
  Modelled from the spec: HandleTermination (section 4.1), the reaper's call, absent from
  the sources. "Preconditions: state == Running. Effects: remove from ProcessRegistry;
  set state = Terminated; if detached == false, construct an ExitSignal and forward to
  NotificationDispatcher; always release the StreamBundle's read-side resources (stdin
  write-side [...] is also forced-closed at this point if still open). Calling this
  twice is a programming error (DoubleTerminationError)". The specification names no
  error for a handle that was never bound; InvalidStateError is returned there. The
  ExitSignal is built by the header's constructor of \<open>wxProcessEvent\<close>, the process id
  converted from \<open>long\<close> to \<open>int\<close>.
\<close>

definition HandleTermination :: "c_int \<Rightarrow> ('i, 'o) system \<Rightarrow> error + ('i, 'o) system" where
  "HandleTermination exitCode s =
     (case state s of
        Terminated \<Rightarrow> Inl DoubleTerminationError
      | Created \<Rightarrow> Inl InvalidStateError
      | Running \<Rightarrow>
          Inr (s\<lparr>registry := registry s - {GetPid (this s)},
                 state := Terminated,
                 dispatched :=
                   (if detached s then dispatched s
                    else dispatched s @
                      [wxProcessEvent_ctor (wxProcess.m_id (this s)) (ucast (GetPid (this s))) exitCode]),
                 istreams := release (m_errorStream (this s))
                               (release (m_inputStream (this s)) (istreams s)),
                 ostreams := release (m_outputStream (this s)) (ostreams s),
                 this := (this s)\<lparr>m_inputStream := None, m_errorStream := None,
                                    m_outputStream := None\<rparr>\<rparr>))"

text \<open>
  Modelled from the spec: an operation of section 4.1 on a handle, and a sequence of them
  issued by the caller, the launcher and the reaper in some order. An operation that fails
  reports its error and leaves the handle as it was (section 7).
\<close>

datatype handle_op =
    Op_BindLaunchResult "c_long option"
  | Op_SetPriority c_unsigned
  | Op_Detach
  | Op_HandleTermination c_int

fun perform :: "handle_op \<Rightarrow> ('i, 'o) system \<Rightarrow> error + ('i, 'o) system" where
  "perform (Op_BindLaunchResult processId) s = BindLaunchResult processId s"
| "perform (Op_SetPriority v) s = SetPriority v s"
| "perform Op_Detach s = Inr (Detach s)"
| "perform (Op_HandleTermination exitCode) s = HandleTermination exitCode s"

fun run :: "handle_op list \<Rightarrow> ('i, 'o) system \<Rightarrow> ('i, 'o) system" where
  "run [] s = s"
| "run (x # xs) s = (case perform x s of Inl e \<Rightarrow> run xs s | Inr s' \<Rightarrow> run xs s')"

fun is_SetPriority :: "handle_op \<Rightarrow> bool" where
  "is_SetPriority (Op_SetPriority v) = True"
| "is_SetPriority x = False"

text \<open>
  Modelled from the spec: the external process-control collaborator of section 4.1, absent
  from the sources. It knows which process ids exist and, for each, whether the caller has
  the privilege to signal and query it, and which signal kinds the platform supports.
\<close>

record 'sig process_control =
  processes :: "c_int \<rightharpoonup> bool"
  supported :: "'sig \<Rightarrow> bool"

text \<open>
  Modelled from the spec: looking a target up in the collaborator: NoSuchProcessError
  "(target not found)", AccessDeniedError "(insufficient privilege)".
\<close>

definition probe :: "'sig process_control \<Rightarrow> c_int \<Rightarrow> error + unit" where
  "probe ctl pid =
     (case processes ctl pid of
        None \<Rightarrow> Inl NoSuchProcessError
      | Some privileged \<Rightarrow> if privileged then Inr () else Inl AccessDeniedError)"

text \<open>
  Modelled from the spec: Kill (section 4.1), declared at line 41, body absent: "delegates
  to an external process-control collaborator"; the result is Ok (\<open>Inr ()\<close>),
  NoSuchProcessError, AccessDeniedError or OperationNotSupportedError "(signal kind
  unsupported on platform)". The \<open>flags\<close> may ask for the children too, which is best
  effort and does not change the attempt on the root pid.
\<close>

definition Kill :: "'sig process_control \<Rightarrow> c_int \<Rightarrow> 'sig \<Rightarrow> c_int \<Rightarrow> error + unit" where
  "Kill ctl pid sig flags =
     (case probe ctl pid of
        Inl e \<Rightarrow> Inl e
      | Inr _ \<Rightarrow> if supported ctl sig then Inr () else Inl OperationNotSupportedError)"

text \<open>
  Modelled from the spec: Exists (section 4.1), declared at line 44, body absent: "probes
  the external process-control collaborator; returns boolean; swallows permission errors
  into false".
\<close>

definition Exists :: "'sig process_control \<Rightarrow> c_int \<Rightarrow> bool" where
  "Exists ctl pid = (case probe ctl pid of Inl e \<Rightarrow> False | Inr _ \<Rightarrow> True)"

section \<open>Sample states\<close>

text \<open>A process object as it is before anything was launched: no redirection, no streams.\<close>

definition sample_process :: wxProcess where
  "sample_process =
     \<lparr>m_id = - 1, m_pid = 0, m_priority = 50, m_inputStream = None,
      m_errorStream = None, m_outputStream = None, m_redirect = False\<rparr>"

text \<open>
  A launched process with its three pipes open. The contents of the stream objects play
  no part: an input stream object is a flag here, an output stream object carries nothing.
\<close>

definition sample_world :: "(bool, unit) world" where
  "sample_world =
     \<lparr>this = \<lparr>m_id = - 1, m_pid = 4242, m_priority = 50, m_inputStream = Some 1,
              m_errorStream = Some 2, m_outputStream = Some 1, m_redirect = False\<rparr>,
      istreams = [1 \<mapsto> False, 2 \<mapsto> False],
      ostreams = [1 \<mapsto> ()]\<rparr>"

text \<open>A handle in state Created, and a handle in state Running with its pipes open.\<close>

definition sample_system :: "(bool, unit) system" where
  "sample_system =
     \<lparr>this = sample_process,
      istreams = Map.empty, ostreams = Map.empty,
      detached = False, state = Created, registry = {}, dispatched = []\<rparr>"

definition running_system :: "(bool, unit) system" where
  "running_system =
     \<lparr>this = \<lparr>m_id = - 1, m_pid = 4242, m_priority = 50, m_inputStream = Some 1,
              m_errorStream = Some 2, m_outputStream = Some 1, m_redirect = True\<rparr>,
      istreams = [1 \<mapsto> False, 2 \<mapsto> False], ostreams = [1 \<mapsto> ()],
      detached = False, state = Running, registry = {4242}, dispatched = []\<rparr>"

text \<open>
  A process-control collaborator that knows process 1, which the caller may not touch, and
  process 4242, which it may; signal kinds are numbers, those below 32 supported.
\<close>

definition sample_control :: "nat process_control" where
  "sample_control = \<lparr>processes = [1 \<mapsto> False, 4242 \<mapsto> True], supported = (\<lambda>sig. sig < 32)\<rparr>"

section \<open>CloseOutput\<close>

lemma CloseOutput_result:
  assumes "CloseOutput w = Some w'"
  shows "this w' = (this w)\<lparr>m_outputStream := None\<rparr>"
    and "istreams w' = istreams w"
    and "delete_obj (m_outputStream (this w)) (ostreams w) = Some (ostreams w')"
  using assms by (auto simp: CloseOutput_def split: option.splits)

lemma CloseOutput_defined:
  "output_valid w \<Longrightarrow> \<exists>w'. CloseOutput w = Some w'"
  by (auto simp: CloseOutput_def output_valid_def delete_obj_def split: option.splits)

lemma CloseOutput_again:
  assumes "CloseOutput w = Some w'"
  shows "CloseOutput w' = Some w'"
proof -
  have "m_outputStream (this w') = None"
    using CloseOutput_result(1) [OF assms] by simp
  then show ?thesis
    by (simp add: CloseOutput_def delete_obj_def)
qed

text \<open>
  C4. CloseOutput is idempotent. On an object whose output pointer is null or points to a
  live stream, the call is defined and leaves the write side closed: the output stream
  getter returns null and the stream object that was connected to the child's stdin, if
  there was one, is gone from the store of live output streams. A second call on that
  state is defined as well (it deletes a null pointer, which is no error) and gives the
  very same state.
\<close>

theorem CloseOutput_idempotent:
  assumes "output_valid w"
  shows "\<exists>w'. CloseOutput w = Some w' \<and> CloseOutput w' = Some w'
           \<and> GetOutputStream (this w') = None \<and> output_valid w'
           \<and> (case GetOutputStream (this w) of
                 None \<Rightarrow> ostreams w' = ostreams w
               | Some a \<Rightarrow> ostreams w' a = None \<and> ostreams w' = (ostreams w)(a := None))"
proof -
  from assms obtain w' where w': "CloseOutput w = Some w'"
    using CloseOutput_defined by blast
  have "CloseOutput w' = Some w'"
    using w' by (rule CloseOutput_again)
  moreover have "m_outputStream (this w') = None"
    using CloseOutput_result(1) [OF w'] by simp
  then have "GetOutputStream (this w') = None" "output_valid w'"
    by (simp_all add: GetOutputStream_def output_valid_def)
  moreover have "case GetOutputStream (this w) of
                 None \<Rightarrow> ostreams w' = ostreams w
               | Some a \<Rightarrow> ostreams w' a = None \<and> ostreams w' = (ostreams w)(a := None)"
    using w'
    by (auto simp: CloseOutput_def delete_obj_def GetOutputStream_def split: option.splits)
  ultimately show ?thesis using w' by blast
qed

theorem CloseOutput_idempotent_witness:
  "output_valid sample_world \<and>
   (\<exists>w'. CloseOutput sample_world = Some w' \<and> CloseOutput w' = Some w'
      \<and> GetOutputStream (this w') = None \<and> ostreams w' 1 = None)
   \<and> ostreams sample_world 1 = Some ()"
proof -
  have v: "output_valid sample_world"
    by (simp add: output_valid_def sample_world_def)
  have o: "GetOutputStream (this sample_world) = Some 1" "ostreams sample_world 1 = Some ()"
    by (simp_all add: GetOutputStream_def sample_world_def)
  from CloseOutput_idempotent [OF v] obtain w' where
    "CloseOutput sample_world = Some w'" "CloseOutput w' = Some w'"
    "GetOutputStream (this w') = None"
    "case GetOutputStream (this sample_world) of
       None \<Rightarrow> ostreams w' = ostreams sample_world
     | Some a \<Rightarrow> ostreams w' a = None \<and> ostreams w' = (ostreams sample_world)(a := None)"
    by blast
  with o v show ?thesis by auto
qed

text \<open>
  C9. After CloseOutput the output stream getter returns null and the stream object it
  pointed to is destroyed: it has left the store of live output streams, every other
  output stream is still there. The input and error stream getters return what they
  returned before, every other member of the object and every input stream object is
  unchanged.
\<close>

theorem CloseOutput_frame:
  assumes "output_valid w"
  shows "\<exists>w'. CloseOutput w = Some w'
           \<and> GetOutputStream (this w') = None
           \<and> (case GetOutputStream (this w) of
                 None \<Rightarrow> ostreams w' = ostreams w
               | Some a \<Rightarrow> ostreams w' a = None \<and> ostreams w' = (ostreams w)(a := None))
           \<and> GetInputStream (this w') = GetInputStream (this w)
           \<and> GetErrorStream (this w') = GetErrorStream (this w)
           \<and> this w' = (this w)\<lparr>m_outputStream := None\<rparr>
           \<and> istreams w' = istreams w"
  using assms
  by (auto simp: CloseOutput_def output_valid_def delete_obj_def GetOutputStream_def
      GetInputStream_def GetErrorStream_def split: option.splits)

theorem CloseOutput_frame_witness:
  "output_valid sample_world
   \<and> (\<exists>w'. CloseOutput sample_world = Some w'
         \<and> GetOutputStream (this w') = None
         \<and> ostreams w' 1 = None
         \<and> GetInputStream (this w') = Some 1
         \<and> GetErrorStream (this w') = Some 2
         \<and> GetPid (this w') = 4242
         \<and> istreams w' 1 = Some False)"
proof -
  have v: "output_valid sample_world"
    by (simp add: output_valid_def sample_world_def)
  from CloseOutput_frame [OF v] obtain w' where
    w': "CloseOutput sample_world = Some w'" "GetOutputStream (this w') = None"
      "case GetOutputStream (this sample_world) of
         None \<Rightarrow> ostreams w' = ostreams sample_world
       | Some a \<Rightarrow> ostreams w' a = None \<and> ostreams w' = (ostreams sample_world)(a := None)"
      "GetInputStream (this w') = GetInputStream (this sample_world)"
      "GetErrorStream (this w') = GetErrorStream (this sample_world)"
      "this w' = (this sample_world)\<lparr>m_outputStream := None\<rparr>"
      "istreams w' = istreams sample_world"
    by blast
  from w'(3) have "ostreams w' 1 = None"
    by (simp add: sample_world_def GetOutputStream_def)
  moreover from w'(4,5) have "GetInputStream (this w') = Some 1" "GetErrorStream (this w') = Some 2"
    by (simp_all add: sample_world_def GetInputStream_def GetErrorStream_def)
  moreover from w'(6) have "GetPid (this w') = 4242"
    by (simp add: sample_world_def GetPid_def)
  moreover from w'(7) have "istreams w' 1 = Some False"
    by (simp add: sample_world_def)
  ultimately show ?thesis using v w'(1,2) by blast
qed

section \<open>SetPid and Redirect\<close>

text \<open>
  C2, as the header has it. SetPid has no failure and no notion of an identifier being
  bound already: every call stores its argument, so that GetPid returns it, replaces
  whatever an earlier call stored, and changes no other member.
\<close>

theorem SetPid_stores:
  "GetPid (SetPid pid p) = pid
   \<and> SetPid pid' (SetPid pid p) = SetPid pid' p
   \<and> SetPid pid p = p\<lparr>wxProcess.m_pid := pid\<rparr>
   \<and> IsRedirected (SetPid pid p) = IsRedirected p
   \<and> GetPriority (SetPid pid p) = GetPriority p
   \<and> GetInputStream (SetPid pid p) = GetInputStream p
   \<and> GetErrorStream (SetPid pid p) = GetErrorStream p
   \<and> GetOutputStream (SetPid pid p) = GetOutputStream p"
  by (simp add: GetPid_def SetPid_def IsRedirected_def GetPriority_def GetInputStream_def
      GetErrorStream_def GetOutputStream_def)

text \<open>
  The claim C2 as stated fails: after the launcher's SetPid(5), a second SetPid(7) is
  accepted and silently replaces the identifier, and so is SetPid(0), the value no
  process has.
\<close>

theorem SetPid_overwrites_counterexample:
  "GetPid (SetPid 5 sample_process) = 5
   \<and> GetPid (SetPid 7 (SetPid 5 sample_process)) = 7
   \<and> GetPid (SetPid 0 (SetPid 5 sample_process)) = 0"
  by (simp add: GetPid_def SetPid_def sample_process_def)

lemma invoke_IsRedirected:
  "invoke c w = Some w' \<Longrightarrow>
     IsRedirected (this w') = (IsRedirected (this w) \<or> c = Call_Redirect)"
  by (cases c)
     (auto simp: IsRedirected_def Redirect_def SetPid_def CloseOutput_def split: option.splits)

text \<open>
  C3, as the header has it. The redirection flag is not fixed at construction: Redirect()
  sets it. Over any sequence of calls of the member functions the header defines,
  IsRedirected() reports true at the end exactly if it did at the start or Redirect() was
  among the calls; no call turns it back to false, and no call but Redirect() changes it.
\<close>

theorem IsRedirected_only_Redirect:
  "invoke_all cs w = Some w' \<Longrightarrow>
     IsRedirected (this w') = (IsRedirected (this w) \<or> Call_Redirect \<in> set cs)"
proof (induction cs arbitrary: w)
  case Nil
  then show ?case by simp
next
  case (Cons c cs)
  from Cons.prems obtain w1 where w1: "invoke c w = Some w1"
    and rest: "invoke_all cs w1 = Some w'"
    by (auto split: option.splits)
  from Cons.IH [OF rest] invoke_IsRedirected [OF w1] show ?case
    by auto
qed

theorem IsRedirected_only_Redirect_witness:
  "invoke_all [Call_SetPid 17, Call_CloseOutput, Call_GetPid] sample_world
     = Some (sample_world\<lparr>this := (this sample_world)\<lparr>wxProcess.m_pid := 17,
                                                         m_outputStream := None\<rparr>,
                           ostreams := Map.empty\<rparr>)
   \<and> IsRedirected (this (sample_world\<lparr>this := (this sample_world)\<lparr>wxProcess.m_pid := 17,
                                                         m_outputStream := None\<rparr>,
                           ostreams := Map.empty\<rparr>)) = False"
proof -
  have r: "invoke_all [Call_SetPid 17, Call_CloseOutput, Call_GetPid] sample_world
     = Some (sample_world\<lparr>this := (this sample_world)\<lparr>wxProcess.m_pid := 17,
                                                         m_outputStream := None\<rparr>,
                           ostreams := Map.empty\<rparr>)"
    by (simp add: sample_world_def SetPid_def CloseOutput_def delete_obj_def)
  from IsRedirected_only_Redirect [OF r] r show ?thesis
    by (simp add: sample_world_def IsRedirected_def)
qed

text \<open>
  The claim C3 as stated fails: on an object whose flag is off, as the creation flag
  wxPROCESS_DEFAULT ("no redirection") leaves it, IsRedirected() returns false, and after
  a call of Redirect() it returns true.
\<close>

theorem Redirect_changes_IsRedirected_counterexample:
  "IsRedirected sample_process = False \<and> IsRedirected (Redirect sample_process) = True"
  by (simp add: IsRedirected_def Redirect_def sample_process_def)

section \<open>wxProcessEvent\<close>

text \<open>
  C10. An event constructed from (id, pid, exitcode) returns pid from GetPid() and exitcode
  from GetExitCode(), and its event type is wxEVT_END_PROCESS. Clone() of an event object
  anywhere in the heap allocates a new object, at an address other than the original's,
  whose pid, exit code and event type (indeed every member) equal the original's, and
  leaves the original as it was; for a constructed event these are pid, exitcode and
  wxEVT_END_PROCESS.
\<close>

theorem wxProcessEvent_ctor_Clone:
  "wxProcessEvent_GetPid (wxProcessEvent_ctor nId pid exitcode) = pid
   \<and> wxProcessEvent_GetExitCode (wxProcessEvent_ctor nId pid exitcode) = exitcode
   \<and> m_eventType (wxProcessEvent_ctor nId pid exitcode) = wxEVT_END_PROCESS
   \<and> (\<exists>b h'. wxProcessEvent_Clone (pre @ e # post) (length pre) = Some (b, h')
         \<and> b \<noteq> length pre
         \<and> b = length (pre @ e # post)
         \<and> wxProcessEvent_GetPid (h' ! b) = wxProcessEvent_GetPid e
         \<and> wxProcessEvent_GetExitCode (h' ! b) = wxProcessEvent_GetExitCode e
         \<and> m_eventType (h' ! b) = m_eventType e
         \<and> h' ! b = e
         \<and> h' ! length pre = e)
   \<and> (\<exists>b h'. wxProcessEvent_Clone (pre @ wxProcessEvent_ctor nId pid exitcode # post)
                (length pre) = Some (b, h')
         \<and> wxProcessEvent_GetPid (h' ! b) = pid
         \<and> wxProcessEvent_GetExitCode (h' ! b) = exitcode
         \<and> m_eventType (h' ! b) = wxEVT_END_PROCESS)"
proof -
  have ctor: "wxProcessEvent_GetPid (wxProcessEvent_ctor nId pid exitcode) = pid"
    "wxProcessEvent_GetExitCode (wxProcessEvent_ctor nId pid exitcode) = exitcode"
    "m_eventType (wxProcessEvent_ctor nId pid exitcode) = wxEVT_END_PROCESS"
    by (simp_all add: wxProcessEvent_GetPid_def wxProcessEvent_GetExitCode_def
        wxProcessEvent_ctor_def wxEvent_ctor_def)
  have clone: "wxProcessEvent_Clone (pre @ x # post) (length pre)
      = Some (length (pre @ x # post), (pre @ x # post) @ [x])" for x
    by (simp add: wxProcessEvent_Clone_def new_event_def wxProcessEvent_copy_def)
  have at_new: "((pre @ x # post) @ [x]) ! length (pre @ x # post) = x" for x
    by (rule nth_append_length)
  have at_old: "((pre @ x # post) @ [x]) ! length pre = x" for x
    by (simp add: nth_append)
  have "\<exists>b h'. wxProcessEvent_Clone (pre @ e # post) (length pre) = Some (b, h')
         \<and> b \<noteq> length pre
         \<and> b = length (pre @ e # post)
         \<and> wxProcessEvent_GetPid (h' ! b) = wxProcessEvent_GetPid e
         \<and> wxProcessEvent_GetExitCode (h' ! b) = wxProcessEvent_GetExitCode e
         \<and> m_eventType (h' ! b) = m_eventType e
         \<and> h' ! b = e
         \<and> h' ! length pre = e"
    using clone [of e] at_new [of e] at_old [of e] by simp
  moreover have "\<exists>b h'. wxProcessEvent_Clone (pre @ wxProcessEvent_ctor nId pid exitcode # post)
                (length pre) = Some (b, h')
         \<and> wxProcessEvent_GetPid (h' ! b) = pid
         \<and> wxProcessEvent_GetExitCode (h' ! b) = exitcode
         \<and> m_eventType (h' ! b) = wxEVT_END_PROCESS"
    using clone [of "wxProcessEvent_ctor nId pid exitcode"]
      at_new [of "wxProcessEvent_ctor nId pid exitcode"] ctor
    by simp
  ultimately show ?thesis using ctor by blast
qed

section \<open>The lifecycle of a handle\<close>

lemma perform_detached:
  "perform x s = Inr s' \<Longrightarrow> detached s \<Longrightarrow> detached s' \<and> dispatched s' = dispatched s"
  by (cases x)
     (auto simp: BindLaunchResult_def SetPriority_def Detach_def HandleTermination_def
       split: if_splits option.splits lifecycle.splits)

lemma run_detached:
  "detached s \<Longrightarrow> detached (run ops s) \<and> dispatched (run ops s) = dispatched s"
proof (induction ops arbitrary: s)
  case Nil
  then show ?case by simp
next
  case (Cons x xs)
  show ?case
  proof (cases "perform x s")
    case (Inl e)
    with Cons show ?thesis by simp
  next
    case (Inr s')
    from perform_detached [OF Inr Cons.prems] Cons.IH [of s'] Inr show ?thesis by simp
  qed
qed

lemma perform_Terminated:
  "perform x s = Inr s' \<Longrightarrow> state s = Terminated \<Longrightarrow>
     state s' = Terminated \<and> dispatched s' = dispatched s"
  by (cases x)
     (auto simp: BindLaunchResult_def SetPriority_def Detach_def HandleTermination_def
       split: if_splits option.splits lifecycle.splits)

lemma run_Terminated:
  "state s = Terminated \<Longrightarrow> dispatched (run ops s) = dispatched s"
proof (induction ops arbitrary: s)
  case Nil
  then show ?case by simp
next
  case (Cons x xs)
  show ?case
  proof (cases "perform x s")
    case (Inl e)
    with Cons show ?thesis by simp
  next
    case (Inr s')
    from perform_Terminated [OF Inr Cons.prems] Cons.IH [of s'] Inr show ?thesis by simp
  qed
qed

lemma HandleTermination_Running:
  "state s = Running \<Longrightarrow>
     \<exists>s'. HandleTermination exitCode s = Inr s' \<and> state s' = Terminated
        \<and> detached s' = detached s
        \<and> dispatched s' =
            (if detached s then dispatched s
             else dispatched s @
               [wxProcessEvent_ctor (wxProcess.m_id (this s)) (ucast (GetPid (this s))) exitCode])"
  by (simp add: HandleTermination_def)

text \<open>
  C1. Detach sets the detached flag, and a second Detach changes nothing more. Once Detach
  has completed, no operation delivers a notification: in particular HandleTermination
  on the running, detached handle succeeds, moves it to Terminated and delivers nothing.
  When HandleTermination completes first on a running handle, it delivers the signal
  unless the handle was detached already, and a Detach afterwards, like any later
  operation, leaves what was delivered as it is.
\<close>

theorem Detach_versus_HandleTermination:
  "Detach (Detach s) = Detach s \<and> detached (Detach s)
   \<and> dispatched (Detach s) = dispatched s \<and> state (Detach s) = state s
   \<and> dispatched (run ops (Detach s)) = dispatched s
   \<and> (state s = Running \<longrightarrow>
        (\<exists>s'. HandleTermination exitCode (Detach s) = Inr s' \<and> state s' = Terminated
           \<and> dispatched s' = dispatched s)
      \<and> (\<exists>s'. HandleTermination exitCode s = Inr s' \<and> state s' = Terminated
           \<and> dispatched s' =
                (if detached s then dispatched s
                 else dispatched s @
                   [wxProcessEvent_ctor (wxProcess.m_id (this s)) (ucast (GetPid (this s)))
                      exitCode])
           \<and> dispatched (Detach s') = dispatched s'
           \<and> dispatched (run (Op_Detach # ops) s') = dispatched s'))"
proof -
  have a: "Detach (Detach s) = Detach s" "detached (Detach s)"
    "dispatched (Detach s) = dispatched s" "state (Detach s) = state s"
    by (simp_all add: Detach_def)
  have b: "dispatched (run ops (Detach s)) = dispatched s"
    using run_detached [of "Detach s" ops] a by simp
  have c: "\<exists>s'. HandleTermination exitCode (Detach s) = Inr s' \<and> state s' = Terminated
           \<and> dispatched s' = dispatched s" if "state s = Running"
    using HandleTermination_Running [of "Detach s" exitCode] that a by auto
  have d: "\<exists>s'. HandleTermination exitCode s = Inr s' \<and> state s' = Terminated
           \<and> dispatched s' =
                (if detached s then dispatched s
                 else dispatched s @
                   [wxProcessEvent_ctor (wxProcess.m_id (this s)) (ucast (GetPid (this s)))
                      exitCode])
           \<and> dispatched (Detach s') = dispatched s'
           \<and> dispatched (run (Op_Detach # ops) s') = dispatched s'" if "state s = Running"
  proof -
    from HandleTermination_Running [OF that, of exitCode]
    obtain s' where s': "HandleTermination exitCode s = Inr s'" "state s' = Terminated"
      "dispatched s' =
         (if detached s then dispatched s
          else dispatched s @
            [wxProcessEvent_ctor (wxProcess.m_id (this s)) (ucast (GetPid (this s))) exitCode])"
      by blast
    have "dispatched (Detach s') = dispatched s'"
      by (simp add: Detach_def)
    moreover have "dispatched (run (Op_Detach # ops) s') = dispatched s'"
      using run_Terminated [OF s'(2)] by blast
    ultimately show ?thesis using s' by blast
  qed
  from a b c d show ?thesis by blast
qed

theorem Detach_versus_HandleTermination_witness:
  "state running_system = Running
   \<and> (\<exists>s'. HandleTermination 7 (Detach running_system) = Inr s' \<and> dispatched s' = [])
   \<and> (\<exists>s'. HandleTermination 7 running_system = Inr s'
         \<and> dispatched s' = [wxProcessEvent_ctor (- 1) 4242 7]
         \<and> dispatched (Detach s') = dispatched s')"
proof -
  have r: "state running_system = Running" "dispatched running_system = []"
    "detached running_system = False" "wxProcess.m_id (this running_system) = - 1"
    "ucast (GetPid (this running_system)) = (4242 :: c_int)"
    by (simp_all add: running_system_def GetPid_def)
  from Detach_versus_HandleTermination [of running_system "[]" 7] r show ?thesis
    by auto
qed

lemma perform_priority:
  "perform x s = Inr s' \<Longrightarrow> \<not> is_SetPriority x \<or> state s \<noteq> Created \<Longrightarrow>
     GetPriority (this s') = GetPriority (this s)"
  by (cases x)
     (auto simp: BindLaunchResult_def SetPriority_def Detach_def HandleTermination_def
       GetPriority_def SetPid_def split: if_splits option.splits lifecycle.splits)

lemma perform_not_Created:
  "perform x s = Inr s' \<Longrightarrow> state s \<noteq> Created \<Longrightarrow> state s' \<noteq> Created"
  by (cases x)
     (auto simp: BindLaunchResult_def SetPriority_def Detach_def HandleTermination_def
       split: if_splits option.splits lifecycle.splits)

lemma run_priority:
  "\<forall>x\<in>set ops. \<not> is_SetPriority x \<Longrightarrow>
     GetPriority (this (run ops s)) = GetPriority (this s)"
proof (induction ops arbitrary: s)
  case Nil
  then show ?case by simp
next
  case (Cons x xs)
  show ?case
  proof (cases "perform x s")
    case (Inl e)
    with Cons show ?thesis by simp
  next
    case (Inr s')
    from Cons.prems have "\<not> is_SetPriority x" and xs: "\<forall>x\<in>set xs. \<not> is_SetPriority x"
      by simp_all
    with perform_priority [OF Inr] Cons.IH [OF xs, of s'] Inr show ?thesis by simp
  qed
qed

lemma run_bound:
  "state s \<noteq> Created \<Longrightarrow>
     state (run ops s) \<noteq> Created \<and> GetPriority (this (run ops s)) = GetPriority (this s)"
proof (induction ops arbitrary: s)
  case Nil
  then show ?case by simp
next
  case (Cons x xs)
  show ?case
  proof (cases "perform x s")
    case (Inl e)
    with Cons show ?thesis by simp
  next
    case (Inr s')
    from perform_not_Created [OF Inr Cons.prems] perform_priority [OF Inr] Cons.prems
      Cons.IH [of s'] Inr
    show ?thesis by simp
  qed
qed

text \<open>
  C6. On a handle in state Created, SetPriority succeeds and GetPriority returns the value
  set; it keeps returning it over any later operations other than a further SetPriority.
  BindLaunchResult then succeeds and keeps the priority, and from then on, whatever
  operations follow, SetPriority fails with InvalidStateError and GetPriority still
  returns the value set before the bind.
\<close>

theorem SetPriority_window:
  assumes "state s = Created"
  shows "\<exists>s1. SetPriority v s = Inr s1 \<and> state s1 = Created \<and> GetPriority (this s1) = v
           \<and> ((\<forall>x\<in>set ops. \<not> is_SetPriority x) \<longrightarrow> GetPriority (this (run ops s1)) = v)
           \<and> (\<exists>s2. BindLaunchResult (Some pid) s1 = Inr s2
                \<and> GetPriority (this s2) = v
                \<and> SetPriority v' s2 = Inl InvalidStateError
                \<and> SetPriority v' (run ops s2) = Inl InvalidStateError
                \<and> GetPriority (this (run ops s2)) = v)"
proof -
  define s1 where "s1 = s\<lparr>this := (this s)\<lparr>m_priority := v\<rparr>\<rparr>"
  define s2 where "s2 = s1\<lparr>this := SetPid pid (this s1), registry := insert pid (registry s1),
                              state := Running\<rparr>"
  have 1: "SetPriority v s = Inr s1" "state s1 = Created" "GetPriority (this s1) = v"
    using assms by (simp_all add: SetPriority_def s1_def GetPriority_def)
  have 2: "(\<forall>x\<in>set ops. \<not> is_SetPriority x) \<longrightarrow> GetPriority (this (run ops s1)) = v"
    using run_priority [of ops s1] 1(3) by simp
  have 3: "BindLaunchResult (Some pid) s1 = Inr s2" "GetPriority (this s2) = v"
      "state s2 \<noteq> Created"
    using 1 by (simp_all add: BindLaunchResult_def s2_def GetPriority_def SetPid_def)
  have 4: "SetPriority v' s2 = Inl InvalidStateError"
    using 3(3) by (simp add: SetPriority_def)
  from run_bound [OF 3(3), of ops]
  have 5: "SetPriority v' (run ops s2) = Inl InvalidStateError"
      "GetPriority (this (run ops s2)) = v"
    using 3(2) by (simp_all add: SetPriority_def)
  from 1 2 3 4 5 show ?thesis by blast
qed

theorem SetPriority_window_witness:
  "state sample_system = Created
   \<and> (\<exists>s1. SetPriority 7 sample_system = Inr s1 \<and> GetPriority (this s1) = 7
        \<and> GetPriority (this (run [Op_Detach, Op_HandleTermination 3] s1)) = 7
        \<and> (\<exists>s2. BindLaunchResult (Some 4242) s1 = Inr s2
             \<and> SetPriority 9 s2 = Inl InvalidStateError))"
proof -
  have c: "state sample_system = Created"
    by (simp add: sample_system_def)
  have o: "\<forall>x\<in>set [Op_Detach, Op_HandleTermination 3]. \<not> is_SetPriority x"
    by simp
  from SetPriority_window [OF c, of 7 "[Op_Detach, Op_HandleTermination 3]" 4242 9] o c
  show ?thesis by blast
qed

lemma perform_appends:
  "perform x s = Inr s' \<Longrightarrow>
     \<exists>new. dispatched s' = dispatched s @ new
        \<and> length new + (if state s' = Terminated then 0 else 1)
            \<le> (if state s = Terminated then 0 else 1)"
  by (cases x)
     (auto simp: BindLaunchResult_def SetPriority_def Detach_def HandleTermination_def
       split: if_splits option.splits lifecycle.splits)

lemma run_appends:
  "\<exists>new. dispatched (run ops s) = dispatched s @ new
      \<and> length new + (if state (run ops s) = Terminated then 0 else 1)
          \<le> (if state s = Terminated then 0 else (1::nat))"
proof (induction ops arbitrary: s)
  case Nil
  then show ?case by simp
next
  case (Cons x xs)
  show ?case
  proof (cases "perform x s")
    case (Inl e)
    with Cons.IH [of s] show ?thesis by simp
  next
    case (Inr s')
    from perform_appends [OF Inr] obtain n1 where
      n1: "dispatched s' = dispatched s @ n1"
        "length n1 + (if state s' = Terminated then 0 else 1)
            \<le> (if state s = Terminated then 0 else 1)"
      by blast
    from Cons.IH [of s'] obtain n2 where
      n2: "dispatched (run xs s') = dispatched s' @ n2"
        "length n2 + (if state (run xs s') = Terminated then 0 else 1)
            \<le> (if state s' = Terminated then 0 else 1)"
      by blast
    have "dispatched (run (x # xs) s) = dispatched s @ (n1 @ n2)"
      using Inr n1(1) n2(1) by simp
    moreover have "length (n1 @ n2) + (if state (run (x # xs) s) = Terminated then 0 else 1)
            \<le> (if state s = Terminated then 0 else 1)"
      using Inr n1(2) n2(2) by (simp split: if_splits)
    ultimately show ?thesis by blast
  qed
qed

lemma Clone_keeps:
  "wxProcessEvent_Clone h a = Some (b, h') \<Longrightarrow>
     b = length h \<and> length h' = Suc (length h) \<and> (\<forall>i < length h. h' ! i = h ! i)"
  by (auto simp: wxProcessEvent_Clone_def new_event_def nth_append split: if_splits)

lemma event_invoke_keeps:
  assumes "event_invoke c h = Some h'" and "i < length h"
    and "is_member_function (fst c) \<or> snd c \<noteq> i"
  shows "i < length h' \<and> h' ! i = h ! i"
proof (cases c)
  case (Pair k a)
  show ?thesis
  proof (cases k)
    case Ev_Clone
    with Pair assms(1) obtain b where "wxProcessEvent_Clone h a = Some (b, h')"
      by auto
    from Clone_keeps [OF this] assms(2) show ?thesis by simp
  qed (use Pair assms in \<open>auto split: if_splits\<close>)
qed

lemma event_invoke_all_keeps:
  "event_invoke_all cs h = Some h' \<Longrightarrow> i < length h \<Longrightarrow>
     \<forall>x\<in>set cs. is_member_function (fst x) \<or> snd x \<noteq> i \<Longrightarrow>
     i < length h' \<and> h' ! i = h ! i"
proof (induction cs arbitrary: h)
  case Nil
  then show ?case by simp
next
  case (Cons c cs)
  from Cons.prems(1) obtain h1 where h1: "event_invoke c h = Some h1"
    and rest: "event_invoke_all cs h1 = Some h'"
    by (auto split: option.splits)
  from Cons.prems(3) have c: "is_member_function (fst c) \<or> snd c \<noteq> i"
    and cs: "\<forall>x\<in>set cs. is_member_function (fst x) \<or> snd x \<noteq> i"
    by simp_all
  from event_invoke_keeps [OF h1 Cons.prems(2) c] have "i < length h1" "h1 ! i = h ! i"
    by simp_all
  with Cons.IH [OF rest _ cs] show ?case by simp
qed

text \<open>
  C7, as the header has it. An event is not immutable: its pid and exit code are public
  data members, and assigning one changes what the accessor returns (and nothing else).
  What holds is that no member function changes an event once it is constructed: over
  any sequence of calls and assignments on the objects of the heap in which every
  assignment goes to another object, an event that was there is still there with the same
  pid and exit code (the same members altogether). And over any sequence of operations
  on a handle, the signals already delivered stay as they are and at most one is added,
  none when the handle had terminated already.
\<close>

theorem ExitSignal_members_once:
  "(event_invoke_all cs h = Some h' \<and> a < length h
      \<and> (\<forall>x\<in>set cs. is_member_function (fst x) \<or> snd x \<noteq> a) \<longrightarrow>
      a < length h'
      \<and> wxProcessEvent_GetPid (h' ! a) = wxProcessEvent_GetPid (h ! a)
      \<and> wxProcessEvent_GetExitCode (h' ! a) = wxProcessEvent_GetExitCode (h ! a)
      \<and> h' ! a = h ! a)
   \<and> wxProcessEvent_GetPid (assign_m_pid v e) = v
   \<and> wxProcessEvent_GetExitCode (assign_m_pid v e) = wxProcessEvent_GetExitCode e
   \<and> wxProcessEvent_GetExitCode (assign_m_exitcode v e) = v
   \<and> wxProcessEvent_GetPid (assign_m_exitcode v e) = wxProcessEvent_GetPid e
   \<and> (\<exists>new. dispatched (run ops s) = dispatched s @ new
         \<and> length new \<le> (if state s = Terminated then 0 else 1))"
proof -
  have "a < length h' \<and> h' ! a = h ! a"
    if "event_invoke_all cs h = Some h'" "a < length h"
      "\<forall>x\<in>set cs. is_member_function (fst x) \<or> snd x \<noteq> a"
    using event_invoke_all_keeps [OF that] .
  moreover have "wxProcessEvent_GetPid (assign_m_pid v e) = v"
    "wxProcessEvent_GetExitCode (assign_m_pid v e) = wxProcessEvent_GetExitCode e"
    "wxProcessEvent_GetExitCode (assign_m_exitcode v e) = v"
    "wxProcessEvent_GetPid (assign_m_exitcode v e) = wxProcessEvent_GetPid e"
    by (simp_all add: wxProcessEvent_GetPid_def wxProcessEvent_GetExitCode_def
        assign_m_pid_def assign_m_exitcode_def)
  moreover from run_appends [of ops s] obtain new where
    "dispatched (run ops s) = dispatched s @ new"
    "length new + (if state (run ops s) = Terminated then 0 else 1)
          \<le> (if state s = Terminated then 0 else (1::nat))"
    by blast
  then have "\<exists>new. dispatched (run ops s) = dispatched s @ new
         \<and> length new \<le> (if state s = Terminated then 0 else 1)"
    by (auto split: if_splits)
  ultimately show ?thesis by auto
qed

theorem ExitSignal_members_once_witness:
  "event_invoke_all [(Ev_GetPid, 0), (Ev_assign_m_pid 99, Suc 0), (Ev_Clone, 0)]
      [wxProcessEvent_ctor 1 4242 7, wxProcessEvent_ctor 2 17 0]
     = Some [wxProcessEvent_ctor 1 4242 7, assign_m_pid 99 (wxProcessEvent_ctor 2 17 0),
             wxProcessEvent_ctor 1 4242 7]
   \<and> (0::nat) < length [wxProcessEvent_ctor 1 4242 7, wxProcessEvent_ctor 2 17 0]
   \<and> wxProcessEvent_GetPid
        ([wxProcessEvent_ctor 1 4242 7, assign_m_pid 99 (wxProcessEvent_ctor 2 17 0),
          wxProcessEvent_ctor 1 4242 7] ! 0)
       = wxProcessEvent_GetPid ([wxProcessEvent_ctor 1 4242 7, wxProcessEvent_ctor 2 17 0] ! 0)
   \<and> (\<exists>new. dispatched (run [Op_HandleTermination 7, Op_Detach, Op_HandleTermination 8]
                 running_system) = dispatched running_system @ new \<and> length new \<le> 1)"
proof -
  have r: "event_invoke_all [(Ev_GetPid, 0), (Ev_assign_m_pid 99, Suc 0), (Ev_Clone, 0)]
      [wxProcessEvent_ctor 1 4242 7, wxProcessEvent_ctor 2 17 0]
     = Some [wxProcessEvent_ctor 1 4242 7, assign_m_pid 99 (wxProcessEvent_ctor 2 17 0),
             wxProcessEvent_ctor 1 4242 7]"
    by (simp add: wxProcessEvent_Clone_def new_event_def wxProcessEvent_copy_def
        wxProcessEvent_ctor_def wxEvent_ctor_def)
  have l: "(0::nat) < length [wxProcessEvent_ctor 1 4242 7, wxProcessEvent_ctor 2 17 0]"
    by simp
  have m: "\<forall>x\<in>set [(Ev_GetPid, 0), (Ev_assign_m_pid 99, Suc 0), (Ev_Clone, 0)].
             is_member_function (fst x) \<or> snd x \<noteq> (0::nat)"
    by simp
  have t: "state running_system = Running"
    by (simp add: running_system_def)
  from ExitSignal_members_once
    [of "[(Ev_GetPid, 0), (Ev_assign_m_pid 99, Suc 0), (Ev_Clone, 0)]"
      "[wxProcessEvent_ctor 1 4242 7, wxProcessEvent_ctor 2 17 0]"
      "[wxProcessEvent_ctor 1 4242 7, assign_m_pid 99 (wxProcessEvent_ctor 2 17 0),
        wxProcessEvent_ctor 1 4242 7]" 0
      _ _ "[Op_HandleTermination 7, Op_Detach, Op_HandleTermination 8]" running_system]
    r l m t
  show ?thesis by auto
qed

text \<open>
  The claim C7 as stated fails: an event constructed with pid 4242 and exit code 7 returns
  4242 from GetPid(); after the assignment of 99 to its public member m_pid, GetPid()
  returns 99, and likewise for the exit code.
\<close>

theorem ExitSignal_public_fields_counterexample:
  "wxProcessEvent_GetPid (wxProcessEvent_ctor 1 4242 7) = 4242
   \<and> wxProcessEvent_GetPid (assign_m_pid 99 (wxProcessEvent_ctor 1 4242 7)) = 99
   \<and> wxProcessEvent_GetExitCode (wxProcessEvent_ctor 1 4242 7) = 7
   \<and> wxProcessEvent_GetExitCode (assign_m_exitcode 3 (wxProcessEvent_ctor 1 4242 7)) = 3"
  by (simp add: wxProcessEvent_GetPid_def wxProcessEvent_GetExitCode_def
      wxProcessEvent_ctor_def wxEvent_ctor_def assign_m_pid_def assign_m_exitcode_def)

section \<open>Kill and Exists\<close>

text \<open>
  C8. Kill returns Ok, NoSuchProcessError, AccessDeniedError or OperationNotSupportedError
  and nothing else; for a process id that does not exist it returns NoSuchProcessError.
  Exists returns false for a process id that does not exist, and false as well for one
  that exists but that the caller has no permission to query.
\<close>

theorem Kill_Exists_results:
  "Kill ctl pid sig flags
      \<in> {Inr (), Inl NoSuchProcessError, Inl AccessDeniedError, Inl OperationNotSupportedError}
   \<and> (processes ctl pid = None \<longrightarrow>
        Kill ctl pid sig flags = Inl NoSuchProcessError \<and> Exists ctl pid = False)
   \<and> (processes ctl pid' = Some False \<longrightarrow> Exists ctl pid' = False)"
  by (auto simp: Kill_def Exists_def probe_def split: option.splits sum.splits if_splits)

theorem Kill_Exists_results_witness:
  "processes sample_control 99 = None
   \<and> Kill sample_control 99 15 0 = Inl NoSuchProcessError
   \<and> Exists sample_control 99 = False
   \<and> processes sample_control 1 = Some False
   \<and> Exists sample_control 1 = False"
proof -
  have a: "processes sample_control 99 = None"
    by (simp add: sample_control_def)
  have b: "processes sample_control 1 = Some False"
    by (simp add: sample_control_def)
  from Kill_Exists_results [of sample_control 99 15 0 1] a b show ?thesis by simp
qed

end
